theory Spec2Isabelle
  imports Main "HOL-Library.Word"
begin

section \<open>The EyeLogic binding \<^verbatim>\<open>ELApi.py\<close>\<close>

text \<open>
  \<^verbatim>\<open>ELApi.py\<close> is a ctypes binding: it declares three structures and five callback
  prototypes, loads a native library when the module is imported, and wraps eight native
  entry points in the methods of the class \<^verbatim>\<open>ELApi\<close>. The embedding below follows the
  file from top to bottom. The native library itself is not part of the repository; it is
  a parameter of every operation (a function from an entry point, its converted arguments
  and the native state to the returned register and the new native state).
\<close>

subsection \<open>ctypes type descriptors and the declared structures\<close>

text \<open>
  A ctypes type object. \<open>Structure name fields\<close> is a subclass of \<^verbatim>\<open>Structure\<close> with its
  \<^verbatim>\<open>_fields_\<close> list in declaration order; \<open>CFUNCTYPE r as\<close> is the prototype class that
  \<^verbatim>\<open>CFUNCTYPE(r, *as)\<close> returns (ctypes caches these classes by signature, so two calls with
  the same signature give the same class); a result type of \<open>None\<close> is \<^verbatim>\<open>void\<close>.
\<close>

datatype ctype =
    c_int | c_bool | c_int32 | c_int64 | c_uint8 | c_double | c_char_p
  | POINTER ctype
  | Structure string "(string \<times> ctype) list"
  | CFUNCTYPE "ctype option" "ctype list"

definition ELCPoint2d :: ctype where
  "ELCPoint2d = Structure ''ELCPoint2d'' [(''x'', c_double), (''y'', c_double)]"

definition ELCPoint3d :: ctype where
  "ELCPoint3d = Structure ''ELCPoint3d'' [(''x'', c_double), (''y'', c_double), (''z'', c_double)]"

definition ELCGazeSample :: ctype where
  "ELCGazeSample = Structure ''ELCGazeSample''
     [(''timestampMicroSec'', c_int64),
      (''index'', c_int32),
      (''porRaw'', ELCPoint2d),
      (''porFiltered'', ELCPoint2d),
      (''porLeft'', ELCPoint2d),
      (''eyePositionLeft'', ELCPoint3d),
      (''pupilRadiusLeft'', c_double),
      (''porRight'', ELCPoint2d),
      (''eyePositionRight'', ELCPoint3d),
      (''pupilRadiusRight'', c_double)]"

definition SampleCallback :: ctype where
  "SampleCallback = CFUNCTYPE None [POINTER ELCGazeSample]"

definition ConnectionClosedCallback :: ctype where
  "ConnectionClosedCallback = CFUNCTYPE None []"

definition DeviceConnectedCallback :: ctype where
  "DeviceConnectedCallback =
     CFUNCTYPE None [c_int64, POINTER c_uint8, c_int32, POINTER c_uint8, c_int32]"

definition DeviceDisconnectedCallback :: ctype where
  "DeviceDisconnectedCallback = CFUNCTYPE None []"

definition TrackingStoppedCallback :: ctype where
  "TrackingStoppedCallback = CFUNCTYPE None []"

text \<open>Reading a structure class: its \<^verbatim>\<open>_fields_\<close>, and the fields of a given type.\<close>

fun fields_of :: "ctype \<Rightarrow> (string \<times> ctype) list" where
  "fields_of (Structure n fs) = fs"
| "fields_of t = []"

definition fields_of_type :: "ctype \<Rightarrow> ctype \<Rightarrow> string list" where
  "fields_of_type t s = map fst (filter (\<lambda>f. snd f = t) (fields_of s))"

subsection \<open>Python values, exceptions and C values\<close>

text \<open>
  The Python values that reach the binding: \<^verbatim>\<open>None\<close>, booleans, integers (unbounded),
  \<^verbatim>\<open>str\<close> (a list of code points), \<^verbatim>\<open>bytes\<close>, a \<^verbatim>\<open>c_char_p\<close> instance made from
  bytes, and an instance of a \<^verbatim>\<open>CFUNCTYPE\<close> prototype class with the address it holds
  (\<open>None\<close> is the NULL function pointer that the class called without arguments gives).
\<close>

datatype pyval =
    PyNone
  | PyBool bool
  | PyInt int
  | PyStr "nat list"
  | PyBytes "8 word list"
  | PyCCharP "8 word list"
  | PyCFuncPtr ctype "nat option"

datatype exn =
    PyException string
  | ValueError
  | AttributeError
  | UnicodeEncodeError
  | TypeError
  | ArgumentError

text \<open>What a native entry point receives.\<close>

datatype cval =
    CInt "32 word"
  | CCharP "8 word list option"
  | CWCharP "nat list"
  | CNull
  | CFuncPtr "nat option"

text \<open>
  \<^verbatim>\<open>str.encode('utf-8')\<close> with the default strict error handler: one to four bytes per
  code point, and \<^verbatim>\<open>UnicodeEncodeError\<close> on a surrogate (0xD800 to 0xDFFF). A code point
  from 0x110000 on cannot occur in a \<^verbatim>\<open>str\<close>; it is rejected too.
\<close>

definition utf8_char :: "nat \<Rightarrow> 8 word list option" where
  "utf8_char cp =
     (if cp < 0x80 then Some [of_nat cp]
      else if cp < 0x800 then Some [of_nat (0xC0 + cp div 64), of_nat (0x80 + cp mod 64)]
      else if 0xD800 \<le> cp \<and> cp \<le> 0xDFFF then None
      else if cp < 0x10000 then
        Some [of_nat (0xE0 + cp div 4096), of_nat (0x80 + (cp div 64) mod 64),
              of_nat (0x80 + cp mod 64)]
      else if cp < 0x110000 then
        Some [of_nat (0xF0 + cp div 262144), of_nat (0x80 + (cp div 4096) mod 64),
              of_nat (0x80 + (cp div 64) mod 64), of_nat (0x80 + cp mod 64)]
      else None)"

fun utf8 :: "nat list \<Rightarrow> 8 word list option" where
  "utf8 [] = Some []"
| "utf8 (cp # cps) =
     (case utf8_char cp of None \<Rightarrow> None
      | Some bs \<Rightarrow> (case utf8 cps of None \<Rightarrow> None | Some rest \<Rightarrow> Some (bs @ rest)))"

text \<open>
  \<^verbatim>\<open>v.encode('utf-8')\<close>: of the values above only \<^verbatim>\<open>str\<close> has an \<^verbatim>\<open>encode\<close> attribute.
\<close>

fun encode_utf8 :: "pyval \<Rightarrow> exn + pyval" where
  "encode_utf8 (PyStr cps) =
     (case utf8 cps of None \<Rightarrow> Inl UnicodeEncodeError | Some bs \<Rightarrow> Inr (PyBytes bs))"
| "encode_utf8 v = Inl AttributeError"

text \<open>\<^verbatim>\<open>c_char_p(v)\<close>: the constructor takes bytes (or \<^verbatim>\<open>None\<close> or an address).\<close>

fun c_char_p_new :: "pyval \<Rightarrow> exn + pyval" where
  "c_char_p_new (PyBytes bs) = Inr (PyCCharP bs)"
| "c_char_p_new v = Inl TypeError"

subsection \<open>Foreign functions: prototypes, argument conversion, the call\<close>

datatype fname =
    elInitApi | elDestroyApi | elConnect | elDisconnect | elIsConnected
  | elRequestTracking | elUnrequestTracking | elCalibrate

text \<open>
  Each foreign function object of the loaded library carries \<^verbatim>\<open>argtypes\<close> and
  \<^verbatim>\<open>restype\<close>; ctypes creates the object on first attribute access with \<^verbatim>\<open>argtypes\<close>
  unset and \<^verbatim>\<open>restype = c_int\<close>, and keeps it on the library object afterwards.
\<close>

record prototype =
  argtypes :: "ctype list option"
  restype :: "ctype option"

definition default_prototype :: prototype where
  "default_prototype = \<lparr>argtypes = None, restype = Some c_int\<rparr>"

text \<open>
  The native library: for an entry point, its converted arguments and the native state,
  the value left in the 32-bit return register and the new native state.
\<close>

type_synonym 'n native = "fname \<Rightarrow> cval list \<Rightarrow> 'n \<Rightarrow> 32 word \<times> 'n"

text \<open>
  The module global \<^verbatim>\<open>c_lib\<close>: the prototypes configured so far, the state of the native
  side, and (for stating which calls were made) the native calls in order.
\<close>

record 'n c_lib =
  protos :: "fname \<Rightarrow> prototype"
  nstate :: 'n
  calls :: "(fname \<times> cval list) list"

definition set_argtypes :: "fname \<Rightarrow> ctype list \<Rightarrow> 'n c_lib \<Rightarrow> 'n c_lib" where
  "set_argtypes f tys s = s\<lparr>protos := (protos s)(f := (protos s f)\<lparr>argtypes := Some tys\<rparr>)\<rparr>"

definition set_restype :: "fname \<Rightarrow> ctype option \<Rightarrow> 'n c_lib \<Rightarrow> 'n c_lib" where
  "set_restype f t s = s\<lparr>protos := (protos s)(f := (protos s f)\<lparr>restype := t\<rparr>)\<rparr>"

text \<open>
  \<^verbatim>\<open>T.from_param(v)\<close> for the parameter types the binding declares. \<^verbatim>\<open>c_int\<close> takes an
  integer and keeps its low 32 bits (ctypes does no overflow check); \<^verbatim>\<open>c_char_p\<close> takes
  a \<^verbatim>\<open>c_char_p\<close> instance, bytes or \<^verbatim>\<open>None\<close>; a prototype class takes only an instance
  of itself. Every other value is an \<^verbatim>\<open>ArgumentError\<close>. The binding never declares a
  parameter of any other type; for those every value is refused here.
\<close>

fun from_param :: "ctype \<Rightarrow> pyval \<Rightarrow> exn + cval" where
  "from_param c_int (PyInt i) = Inr (CInt (word_of_int i))"
| "from_param c_int (PyBool b) = Inr (CInt (if b then 1 else 0))"
| "from_param c_char_p (PyCCharP bs) = Inr (CCharP (Some bs))"
| "from_param c_char_p (PyBytes bs) = Inr (CCharP (Some bs))"
| "from_param c_char_p PyNone = Inr (CCharP None)"
| "from_param (CFUNCTYPE r as) (PyCFuncPtr t a) =
     (if t = CFUNCTYPE r as then Inr (CFuncPtr a) else Inl ArgumentError)"
| "from_param t v = Inl ArgumentError"

text \<open>
  Conversion of an argument when \<^verbatim>\<open>argtypes\<close> is unset: \<^verbatim>\<open>None\<close> is a NULL pointer, an
  integer must fit a C integer, bytes and \<^verbatim>\<open>str\<close> are passed as pointers, a ctypes
  instance is passed as it is.
\<close>

fun conv_param :: "pyval \<Rightarrow> exn + cval" where
  "conv_param PyNone = Inr CNull"
| "conv_param (PyBool b) = Inr (CInt (if b then 1 else 0))"
| "conv_param (PyInt i) =
     (if - (2 ^ 31) \<le> i \<and> i < 2 ^ 32 then Inr (CInt (word_of_int i)) else Inl ArgumentError)"
| "conv_param (PyStr cps) = Inr (CWCharP cps)"
| "conv_param (PyBytes bs) = Inr (CCharP (Some bs))"
| "conv_param (PyCCharP bs) = Inr (CCharP (Some bs))"
| "conv_param (PyCFuncPtr t a) = Inr (CFuncPtr a)"

fun conv_all :: "('a \<Rightarrow> exn + cval) list \<Rightarrow> 'a list \<Rightarrow> exn + cval list" where
  "conv_all (c # cs) (v # vs) =
     (case c v of Inl e \<Rightarrow> Inl e
      | Inr x \<Rightarrow> (case conv_all cs vs of Inl e \<Rightarrow> Inl e | Inr xs \<Rightarrow> Inr (x # xs)))"
| "conv_all cs vs = Inr []"

text \<open>
  The library is a \<^verbatim>\<open>WinDLL\<close> (stdcall): with \<^verbatim>\<open>argtypes\<close> set, the number of arguments
  must be the number of declared parameters.
\<close>

definition convert_args :: "ctype list option \<Rightarrow> pyval list \<Rightarrow> exn + cval list" where
  "convert_args tys vs =
     (case tys of
        None \<Rightarrow> conv_all (map (\<lambda>_. conv_param) vs) vs
      | Some ts \<Rightarrow>
          if length ts \<noteq> length vs then Inl TypeError
          else conv_all (map from_param ts) vs)"

text \<open>
  What the call returns to Python, by \<^verbatim>\<open>restype\<close>: \<^verbatim>\<open>None\<close> gives \<^verbatim>\<open>None\<close>, \<^verbatim>\<open>c_int\<close>
  the register read as a signed 32-bit integer, \<^verbatim>\<open>c_bool\<close> whether its low byte is
  nonzero. The binding configures no other result type; for those the register is read
  as for \<^verbatim>\<open>c_int\<close>.
\<close>

fun to_python :: "ctype option \<Rightarrow> 32 word \<Rightarrow> pyval" where
  "to_python None w = PyNone"
| "to_python (Some c_bool) w = PyBool ((ucast w :: 8 word) \<noteq> 0)"
| "to_python (Some t) w = PyInt (sint w)"

text \<open>
  \<^verbatim>\<open>c_lib.f(*vs)\<close>: convert the arguments by the prototype of \<open>f\<close> as configured at this
  moment, run the native entry point, convert the result by the configured \<^verbatim>\<open>restype\<close>.
  A failed conversion raises before the native code runs.
\<close>

definition call_function ::
  "'n native \<Rightarrow> fname \<Rightarrow> pyval list \<Rightarrow> 'n c_lib \<Rightarrow> (exn + pyval) \<times> 'n c_lib" where
  "call_function N f vs s =
     (case convert_args (argtypes (protos s f)) vs of
        Inl e \<Rightarrow> (Inl e, s)
      | Inr cs \<Rightarrow>
          (let (w, n') = N f cs (nstate s)
           in (Inr (to_python (restype (protos s f)) w),
               s\<lparr>nstate := n', calls := calls s @ [(f, cs)]\<rparr>)))"

subsection \<open>Loading the library when the module is imported\<close>

text \<open>
  What the module-level code reads from its environment: \<^verbatim>\<open>sys.maxsize\<close>; the directory
  of the module file (\<^verbatim>\<open>os.path.dirname(os.path.abspath(__file__))\<close>); \<^verbatim>\<open>os.path.join\<close>
  and \<^verbatim>\<open>os.path.isfile\<close>; whether the names used in the \<^verbatim>\<open>try\<close> block (\<^verbatim>\<open>WinDLL\<close>,
  \<^verbatim>\<open>WinError\<close>, \<^verbatim>\<open>get_last_error\<close>, \<^verbatim>\<open>wintypes\<close>) are bound and \<^verbatim>\<open>kernel32\<close> loads;
  the handle \<^verbatim>\<open>LoadLibraryExW\<close> returns for a path (0 on failure); and, for a loaded
  library, its entry points, its initial native state and the bits of its exported
  double \<^verbatim>\<open>ELInvalidValue\<close> (if it exports one).
\<close>

record 'n dll =
  entry_points :: "'n native"
  initial :: 'n
  invalid_value :: "64 word option"

record 'n env =
  sys_maxsize :: int
  base_dir :: string
  path_join :: "string \<Rightarrow> string \<Rightarrow> string"
  isfile :: "string \<Rightarrow> bool"
  names_bound :: bool
  LoadLibraryExW :: "string \<Rightarrow> nat"
  library_at :: "nat \<Rightarrow> 'n dll"

definition libname :: "'n env \<Rightarrow> string" where
  "libname E = (if sys_maxsize E > 2 ^ 32 then ''ELCApi'' else ''ELCApi32'')"

definition libnameGlobal :: "'n env \<Rightarrow> string" where
  "libnameGlobal E = path_join E (base_dir E) (libname E @ ''.dll'')"

text \<open>
  The \<^verbatim>\<open>try\<close> block. \<^verbatim>\<open>check_bool\<close> raises when \<^verbatim>\<open>LoadLibraryExW\<close> returns 0 and otherwise
  hands back the arguments unchanged, so the call yields the handle. The bare \<^verbatim>\<open>except\<close>
  turns every exception of the block into one \<^verbatim>\<open>Exception\<close>; \<open>None\<close> stands for that.
\<close>

definition try_load :: "'n env \<Rightarrow> nat option" where
  "try_load E =
     (if \<not> names_bound E then None
      else (let c_libH = LoadLibraryExW E (libnameGlobal E)
            in if c_libH = 0 then None else Some c_libH))"

text \<open>The module after a successful import: the library, its fresh \<^verbatim>\<open>c_lib\<close>, the marker.\<close>

record 'n module =
  lib_native :: "'n native"
  c_lib0 :: "'n c_lib"
  ELInvalidValue :: "64 word"

definition quoted :: "string \<Rightarrow> string" where
  "quoted s = [CHR 0x27] @ s @ [CHR 0x27]"

definition module_load :: "'n env \<Rightarrow> exn + 'n module" where
  "module_load E =
     (if \<not> isfile E (libnameGlobal E) then
        Inl (PyException
          (''WARNING: Could not find EyeLogic dll in its expected location: ''
             @ quoted (libnameGlobal E)))
      else
        (case try_load E of
           None \<Rightarrow> Inl (PyException (''WARNING: Failed to load '' @ quoted (libnameGlobal E)))
         | Some h \<Rightarrow>
             (case invalid_value (library_at E h) of
                None \<Rightarrow> Inl ValueError
              | Some v \<Rightarrow>
                  Inr \<lparr>lib_native = entry_points (library_at E h),
                       c_lib0 = \<lparr>protos = (\<lambda>f. default_prototype),
                                 nstate = initial (library_at E h),
                                 calls = []\<rparr>,
                       ELInvalidValue = v\<rparr>)))"

text \<open>
  A client of the binding: \<^verbatim>\<open>import ELApi\<close> followed by code \<open>k\<close> that uses the module. An
  exception of the import is the outcome of the whole; \<open>k\<close> runs only on a loaded module.
\<close>

definition import_then :: "'n env \<Rightarrow> ('n module \<Rightarrow> exn + 'a) \<Rightarrow> exn + 'a" where
  "import_then E k = (case module_load E of Inl e \<Rightarrow> Inl e | Inr m \<Rightarrow> k m)"

subsection \<open>The result enumerations\<close>

datatype ReturnConnect =
    ReturnConnect_SUCCESS
  | ReturnConnect_NOT_INITED
  | ReturnConnect_ALREADY_CONNECTED
  | ReturnConnect_VERSION_MISMATCH
  | ReturnConnect_TIMEOUT

fun ReturnConnect_value :: "ReturnConnect \<Rightarrow> int" where
  "ReturnConnect_value ReturnConnect_SUCCESS = 0"
| "ReturnConnect_value ReturnConnect_NOT_INITED = 1"
| "ReturnConnect_value ReturnConnect_ALREADY_CONNECTED = 2"
| "ReturnConnect_value ReturnConnect_VERSION_MISMATCH = 3"
| "ReturnConnect_value ReturnConnect_TIMEOUT = 4"

definition ReturnConnect_members :: "ReturnConnect list" where
  "ReturnConnect_members =
     [ReturnConnect_SUCCESS, ReturnConnect_NOT_INITED, ReturnConnect_ALREADY_CONNECTED,
      ReturnConnect_VERSION_MISMATCH, ReturnConnect_TIMEOUT]"

datatype ReturnStart =
    ReturnStart_SUCCESS
  | ReturnStart_NOT_CONNECTED
  | ReturnStart_DEVICE_MISSING
  | ReturnStart_INVALID_FRAMERATE_MODE
  | ReturnStart_ALREADY_RUNNING_DIFFERENT_FRAMERATE
  | ReturnStart_FAILURE

fun ReturnStart_value :: "ReturnStart \<Rightarrow> int" where
  "ReturnStart_value ReturnStart_SUCCESS = 0"
| "ReturnStart_value ReturnStart_NOT_CONNECTED = 1"
| "ReturnStart_value ReturnStart_DEVICE_MISSING = 2"
| "ReturnStart_value ReturnStart_INVALID_FRAMERATE_MODE = 3"
| "ReturnStart_value ReturnStart_ALREADY_RUNNING_DIFFERENT_FRAMERATE = 4"
| "ReturnStart_value ReturnStart_FAILURE = 5"

definition ReturnStart_members :: "ReturnStart list" where
  "ReturnStart_members =
     [ReturnStart_SUCCESS, ReturnStart_NOT_CONNECTED, ReturnStart_DEVICE_MISSING,
      ReturnStart_INVALID_FRAMERATE_MODE, ReturnStart_ALREADY_RUNNING_DIFFERENT_FRAMERATE,
      ReturnStart_FAILURE]"

datatype ReturnCalibrate =
    ReturnCalibrate_SUCCESS
  | ReturnCalibrate_NOT_CONNECTED
  | ReturnCalibrate_NOT_TRACKING
  | ReturnCalibrate_INVALID_CALIBRATION_MODE
  | ReturnCalibrate_ALREADY_CALIBRATING
  | ReturnCalibrate_FAILURE

fun ReturnCalibrate_value :: "ReturnCalibrate \<Rightarrow> int" where
  "ReturnCalibrate_value ReturnCalibrate_SUCCESS = 0"
| "ReturnCalibrate_value ReturnCalibrate_NOT_CONNECTED = 1"
| "ReturnCalibrate_value ReturnCalibrate_NOT_TRACKING = 2"
| "ReturnCalibrate_value ReturnCalibrate_INVALID_CALIBRATION_MODE = 3"
| "ReturnCalibrate_value ReturnCalibrate_ALREADY_CALIBRATING = 4"
| "ReturnCalibrate_value ReturnCalibrate_FAILURE = 5"

definition ReturnCalibrate_members :: "ReturnCalibrate list" where
  "ReturnCalibrate_members =
     [ReturnCalibrate_SUCCESS, ReturnCalibrate_NOT_CONNECTED, ReturnCalibrate_NOT_TRACKING,
      ReturnCalibrate_INVALID_CALIBRATION_MODE, ReturnCalibrate_ALREADY_CALIBRATING,
      ReturnCalibrate_FAILURE]"

text \<open>
  Calling an \<^verbatim>\<open>Enum\<close> class with a value looks the value up among the members' values and
  raises \<^verbatim>\<open>ValueError\<close> when no member has it. Python compares \<^verbatim>\<open>True\<close> and \<^verbatim>\<open>False\<close>
  equal to 1 and 0; no other value of the model equals an integer.
\<close>

fun as_int :: "pyval \<Rightarrow> int option" where
  "as_int (PyInt i) = Some i"
| "as_int (PyBool b) = Some (if b then 1 else 0)"
| "as_int v = None"

definition enum_call :: "'e list \<Rightarrow> ('e \<Rightarrow> int) \<Rightarrow> pyval \<Rightarrow> exn + 'e" where
  "enum_call members val v =
     (case as_int v of
        None \<Rightarrow> Inl ValueError
      | Some i \<Rightarrow>
          (case find (\<lambda>m. val m = i) members of
             None \<Rightarrow> Inl ValueError
           | Some m \<Rightarrow> Inr m))"

subsection \<open>The class \<^verbatim>\<open>ELApi\<close>\<close>

text \<open>
  Every method works on the module global \<^verbatim>\<open>c_lib\<close>; the instance has no fields of its
  own. A method returns what Python returns, or the exception raised, with the new
  \<^verbatim>\<open>c_lib\<close>. The constructor's six arguments are given as they are passed.
\<close>

record init_args =
  clientName :: pyval
  sampleCallback :: pyval
  connectionClosedCallback :: pyval
  deviceConnectedCallback :: pyval
  deviceDisconnectedCallback :: pyval
  trackingStoppedCallback :: pyval

definition ELApi_init ::
  "'n native \<Rightarrow> init_args \<Rightarrow> 'n c_lib \<Rightarrow> (exn + pyval) \<times> 'n c_lib" where
  "ELApi_init N a s =
     (case encode_utf8 (clientName a) of
        Inl e \<Rightarrow> (Inl e, s)
      | Inr clientNameUtf8 \<Rightarrow>
          (let s1 = set_argtypes elInitApi
                      [c_char_p, SampleCallback, ConnectionClosedCallback,
                       DeviceConnectedCallback, DeviceDisconnectedCallback,
                       TrackingStoppedCallback] s;
               s2 = set_restype elInitApi (Some c_int) s1
           in (case c_char_p_new clientNameUtf8 of
                 Inl e \<Rightarrow> (Inl e, s2)
               | Inr p \<Rightarrow>
                   (case call_function N elInitApi
                           [p, sampleCallback a, connectionClosedCallback a,
                            deviceConnectedCallback a, deviceDisconnectedCallback a,
                            trackingStoppedCallback a] s2 of
                      (Inl e, s3) \<Rightarrow> (Inl e, s3)
                    | (Inr r, s3) \<Rightarrow> (Inr PyNone, s3)))))"

definition ELApi_del :: "'n native \<Rightarrow> 'n c_lib \<Rightarrow> (exn + pyval) \<times> 'n c_lib" where
  "ELApi_del N s =
     (case call_function N elDestroyApi [] s of
        (Inl e, s1) \<Rightarrow> (Inl e, s1)
      | (Inr r, s1) \<Rightarrow> (Inr PyNone, s1))"

definition connect :: "'n native \<Rightarrow> 'n c_lib \<Rightarrow> (exn + ReturnConnect) \<times> 'n c_lib" where
  "connect N s =
     (let s1 = set_argtypes elConnect [] s;
          s2 = set_restype elConnect (Some c_int) s1
      in (case call_function N elConnect [] s2 of
            (Inl e, s3) \<Rightarrow> (Inl e, s3)
          | (Inr r, s3) \<Rightarrow> (enum_call ReturnConnect_members ReturnConnect_value r, s3)))"

definition disconnect :: "'n native \<Rightarrow> 'n c_lib \<Rightarrow> (exn + pyval) \<times> 'n c_lib" where
  "disconnect N s =
     (let s1 = set_argtypes elDisconnect [] s;
          s2 = set_restype elDisconnect None s1
      in (case call_function N elDisconnect [] s2 of
            (Inl e, s3) \<Rightarrow> (Inl e, s3)
          | (Inr r, s3) \<Rightarrow> (Inr PyNone, s3)))"

text \<open>
  \<^verbatim>\<open>isConnected\<close> sets the prototype of \<^verbatim>\<open>elDisconnect\<close> and then calls
  \<^verbatim>\<open>elIsConnected\<close>, whose own prototype it leaves as it finds it; it returns what that
  call returns.
\<close>

definition isConnected :: "'n native \<Rightarrow> 'n c_lib \<Rightarrow> (exn + pyval) \<times> 'n c_lib" where
  "isConnected N s =
     (let s1 = set_argtypes elDisconnect [] s;
          s2 = set_restype elDisconnect (Some c_bool) s1
      in call_function N elIsConnected [] s2)"

definition requestTracking ::
  "'n native \<Rightarrow> pyval \<Rightarrow> 'n c_lib \<Rightarrow> (exn + ReturnStart) \<times> 'n c_lib" where
  "requestTracking N frameRateModeInd s =
     (let s1 = set_argtypes elRequestTracking [c_int] s;
          s2 = set_restype elRequestTracking (Some c_int) s1
      in (case call_function N elRequestTracking [frameRateModeInd] s2 of
            (Inl e, s3) \<Rightarrow> (Inl e, s3)
          | (Inr r, s3) \<Rightarrow> (enum_call ReturnStart_members ReturnStart_value r, s3)))"

definition unrequestTracking :: "'n native \<Rightarrow> 'n c_lib \<Rightarrow> (exn + pyval) \<times> 'n c_lib" where
  "unrequestTracking N s =
     (let s1 = set_argtypes elUnrequestTracking [] s;
          s2 = set_restype elUnrequestTracking None s1
      in (case call_function N elUnrequestTracking [] s2 of
            (Inl e, s3) \<Rightarrow> (Inl e, s3)
          | (Inr r, s3) \<Rightarrow> (Inr PyNone, s3)))"

definition calibrate ::
  "'n native \<Rightarrow> pyval \<Rightarrow> 'n c_lib \<Rightarrow> (exn + ReturnCalibrate) \<times> 'n c_lib" where
  "calibrate N calibrationModeInd s =
     (let s1 = set_argtypes elCalibrate [c_int] s;
          s2 = set_restype elCalibrate (Some c_int) s1
      in (case call_function N elCalibrate [calibrationModeInd] s2 of
            (Inl e, s3) \<Rightarrow> (Inl e, s3)
          | (Inr r, s3) \<Rightarrow> (enum_call ReturnCalibrate_members ReturnCalibrate_value r, s3)))"

subsection \<open>Auxiliary notions for the statements\<close>

text \<open>
  Client code that constructs an \<^verbatim>\<open>ELApi\<close> right after the import, and the NULL instance
  \<^verbatim>\<open>T()\<close> of a prototype class \<open>T\<close>.
\<close>

definition construct :: "init_args \<Rightarrow> 'n module \<Rightarrow> exn + pyval" where
  "construct a m = fst (ELApi_init (lib_native m) a (c_lib0 m))"

definition null_callback :: "ctype \<Rightarrow> pyval" where
  "null_callback T = PyCFuncPtr T None"

definition null_callbacks :: "pyval \<Rightarrow> init_args" where
  "null_callbacks name =
     \<lparr>clientName = name,
      sampleCallback = null_callback SampleCallback,
      connectionClosedCallback = null_callback ConnectionClosedCallback,
      deviceConnectedCallback = null_callback DeviceConnectedCallback,
      deviceDisconnectedCallback = null_callback DeviceDisconnectedCallback,
      trackingStoppedCallback = null_callback TrackingStoppedCallback\<rparr>"

fun is_str :: "pyval \<Rightarrow> bool" where
  "is_str (PyStr cps) = True"
| "is_str v = False"

text \<open>
  The callback arguments that \<^verbatim>\<open>elInitApi\<close>'s declared parameter types accept: each an
  instance of its prototype class.
\<close>

definition callbacks_accepted :: "init_args \<Rightarrow> bool" where
  "callbacks_accepted a =
     (list_all2 (\<lambda>T v. case v of PyCFuncPtr T' p \<Rightarrow> T' = T | _ \<Rightarrow> False)
        [SampleCallback, ConnectionClosedCallback, DeviceConnectedCallback,
         DeviceDisconnectedCallback, TrackingStoppedCallback]
        [sampleCallback a, connectionClosedCallback a, deviceConnectedCallback a,
         deviceDisconnectedCallback a, trackingStoppedCallback a])"

text \<open>
  A native library that differs from \<open>N\<close> only in the status \<^verbatim>\<open>elInitApi\<close> returns:
  \<open>g\<close> of what \<open>N\<close> returns.
\<close>

definition with_init_status :: "(32 word \<Rightarrow> 32 word) \<Rightarrow> 'n native \<Rightarrow> 'n native" where
  "with_init_status g N =
     (\<lambda>f cs n. if f = elInitApi then (g (fst (N f cs n)), snd (N f cs n)) else N f cs n)"

text \<open>
  Test doubles: a library whose every entry point returns the code \<open>c\<close> and has no state,
  and an environment in which that library is found and loads.
\<close>

definition stub_native :: "32 word \<Rightarrow> unit native" where
  "stub_native c = (\<lambda>f cs n. (c, n))"

definition stub_env :: "32 word \<Rightarrow> unit env" where
  "stub_env c =
     \<lparr>sys_maxsize = 2 ^ 63 - 1,
      base_dir = ''C:/pygaze/_eyetracker/eyelogic'',
      path_join = (\<lambda>a b. a @ ''/'' @ b),
      isfile = (\<lambda>p. True),
      names_bound = True,
      LoadLibraryExW = (\<lambda>p. 1),
      library_at = (\<lambda>h. \<lparr>entry_points = stub_native c, initial = (),
                            invalid_value = Some 0\<rparr>)\<rparr>"

definition fresh_lib :: "unit c_lib" where
  "fresh_lib = \<lparr>protos = (\<lambda>f. default_prototype), nstate = (), calls = []\<rparr>"

section \<open>Results\<close>

subsection \<open>The gaze sample\<close>

text \<open>
  \<open>ELCGazeSample\<close> fixes what a gaze sample is; the sample callback receives a pointer
  to one.
\<close>

text \<open>
  C8. The sample callback takes one argument, a pointer to an \<open>ELCGazeSample\<close>. That
  structure has exactly ten fields with distinct names: one 64-bit integer (the microsecond
  timestamp), one 32-bit integer (the sample index), four \<open>ELCPoint2d\<close> fields (porRaw,
  porFiltered, porLeft, porRight), two \<open>ELCPoint3d\<close> fields (eyePositionLeft,
  eyePositionRight) and two \<open>c_double\<close> fields (pupilRadiusLeft, pupilRadiusRight); the
  components of \<open>ELCPoint2d\<close> (x, y) and \<open>ELCPoint3d\<close> (x, y, z) are all \<open>c_double\<close>.
\<close>

theorem gaze_sample_structure:
  "SampleCallback = CFUNCTYPE None [POINTER ELCGazeSample]
   \<and> length (fields_of ELCGazeSample) = 10
   \<and> distinct (map fst (fields_of ELCGazeSample))
   \<and> fields_of_type c_int64 ELCGazeSample = [''timestampMicroSec'']
   \<and> fields_of_type c_int32 ELCGazeSample = [''index'']
   \<and> set (fields_of_type ELCPoint2d ELCGazeSample)
        = {''porRaw'', ''porFiltered'', ''porLeft'', ''porRight''}
   \<and> set (fields_of_type ELCPoint3d ELCGazeSample) = {''eyePositionLeft'', ''eyePositionRight''}
   \<and> set (fields_of_type c_double ELCGazeSample) = {''pupilRadiusLeft'', ''pupilRadiusRight''}
   \<and> fields_of ELCPoint2d = [(''x'', c_double), (''y'', c_double)]
   \<and> fields_of ELCPoint3d = [(''x'', c_double), (''y'', c_double), (''z'', c_double)]"
  by (simp add: SampleCallback_def ELCGazeSample_def ELCPoint2d_def ELCPoint3d_def
      fields_of_type_def insert_commute)

subsection \<open>Facts about the foreign call shared by the results\<close>

lemma call_function_noargs:
  "argtypes (protos s f) = Some [] \<Longrightarrow>
   call_function N f [] s =
     (Inr (to_python (restype (protos s f)) (fst (N f [] (nstate s)))),
      s\<lparr>nstate := snd (N f [] (nstate s)), calls := calls s @ [(f, [])]\<rparr>)"
  by (simp add: call_function_def convert_args_def split: prod.split)

lemma call_function_int:
  "argtypes (protos s f) = Some [c_int] \<Longrightarrow>
   call_function N f [PyInt i] s =
     (Inr (to_python (restype (protos s f)) (fst (N f [CInt (word_of_int i)] (nstate s)))),
      s\<lparr>nstate := snd (N f [CInt (word_of_int i)] (nstate s)),
        calls := calls s @ [(f, [CInt (word_of_int i)])]\<rparr>)"
  by (simp add: call_function_def convert_args_def split: prod.split)

lemma connect_eq:
  "connect N s =
     (enum_call ReturnConnect_members ReturnConnect_value
        (PyInt (sint (fst (N elConnect [] (nstate s))))),
      (set_restype elConnect (Some c_int) (set_argtypes elConnect [] s))
        \<lparr>nstate := snd (N elConnect [] (nstate s)),
         calls := calls s @ [(elConnect, [])]\<rparr>)"
  by (simp add: connect_def Let_def call_function_noargs set_argtypes_def set_restype_def)

lemma requestTracking_eq:
  "requestTracking N (PyInt i) s =
     (enum_call ReturnStart_members ReturnStart_value
        (PyInt (sint (fst (N elRequestTracking [CInt (word_of_int i)] (nstate s))))),
      (set_restype elRequestTracking (Some c_int) (set_argtypes elRequestTracking [c_int] s))
        \<lparr>nstate := snd (N elRequestTracking [CInt (word_of_int i)] (nstate s)),
         calls := calls s @ [(elRequestTracking, [CInt (word_of_int i)])]\<rparr>)"
  by (simp add: requestTracking_def Let_def call_function_int set_argtypes_def set_restype_def)

lemma calibrate_eq:
  "calibrate N (PyInt i) s =
     (enum_call ReturnCalibrate_members ReturnCalibrate_value
        (PyInt (sint (fst (N elCalibrate [CInt (word_of_int i)] (nstate s))))),
      (set_restype elCalibrate (Some c_int) (set_argtypes elCalibrate [c_int] s))
        \<lparr>nstate := snd (N elCalibrate [CInt (word_of_int i)] (nstate s)),
         calls := calls s @ [(elCalibrate, [CInt (word_of_int i)])]\<rparr>)"
  by (simp add: calibrate_def Let_def call_function_int set_argtypes_def set_restype_def)

lemma ReturnConnect_call_iff:
  "enum_call ReturnConnect_members ReturnConnect_value (PyInt i) = Inr r
     \<longleftrightarrow> i = ReturnConnect_value r"
  by (cases r) (auto simp: enum_call_def ReturnConnect_members_def split: option.splits if_splits)

lemma ReturnStart_call_iff:
  "enum_call ReturnStart_members ReturnStart_value (PyInt i) = Inr r
     \<longleftrightarrow> i = ReturnStart_value r"
  by (cases r) (auto simp: enum_call_def ReturnStart_members_def split: option.splits if_splits)

lemma ReturnCalibrate_call_iff:
  "enum_call ReturnCalibrate_members ReturnCalibrate_value (PyInt i) = Inr r
     \<longleftrightarrow> i = ReturnCalibrate_value r"
  by (cases r)
    (auto simp: enum_call_def ReturnCalibrate_members_def split: option.splits if_splits)

lemma enum_call_raises:
  "enum_call ms val v = Inl e \<Longrightarrow> e = ValueError"
  by (auto simp: enum_call_def split: option.splits)

lemma ReturnConnect_call_range:
  "enum_call ReturnConnect_members ReturnConnect_value (PyInt i) =
     (if 0 \<le> i \<and> i \<le> 4 then Inr (ReturnConnect_members ! nat i) else Inl ValueError)"
proof (cases "0 \<le> i \<and> i \<le> 4")
  case True
  then have "i = 0 \<or> i = 1 \<or> i = 2 \<or> i = 3 \<or> i = 4" by arith
  then show ?thesis
    by (auto simp: enum_call_def ReturnConnect_members_def)
next
  case False
  then show ?thesis
    by (auto simp: enum_call_def ReturnConnect_members_def)
qed

lemma ReturnStart_call_range:
  "enum_call ReturnStart_members ReturnStart_value (PyInt i) =
     (if 0 \<le> i \<and> i \<le> 5 then Inr (ReturnStart_members ! nat i) else Inl ValueError)"
proof (cases "0 \<le> i \<and> i \<le> 5")
  case True
  then have "i = 0 \<or> i = 1 \<or> i = 2 \<or> i = 3 \<or> i = 4 \<or> i = 5" by arith
  then show ?thesis
    by (auto simp: enum_call_def ReturnStart_members_def)
next
  case False
  then show ?thesis
    by (auto simp: enum_call_def ReturnStart_members_def)
qed

lemma ReturnCalibrate_call_range:
  "enum_call ReturnCalibrate_members ReturnCalibrate_value (PyInt i) =
     (if 0 \<le> i \<and> i \<le> 5 then Inr (ReturnCalibrate_members ! nat i) else Inl ValueError)"
proof (cases "0 \<le> i \<and> i \<le> 5")
  case True
  then have "i = 0 \<or> i = 1 \<or> i = 2 \<or> i = 3 \<or> i = 4 \<or> i = 5" by arith
  then show ?thesis
    by (auto simp: enum_call_def ReturnCalibrate_members_def)
next
  case False
  then show ?thesis
    by (auto simp: enum_call_def ReturnCalibrate_members_def)
qed

subsection \<open>Facts about the constructor shared by the results\<close>

lemma ELApi_init_raises_early:
  "encode_utf8 (clientName a) = Inl e \<Longrightarrow> ELApi_init N a s = (Inl e, s)"
  by (simp add: ELApi_init_def)

lemma encode_utf8_cases:
  "encode_utf8 v = Inl e \<longleftrightarrow>
     (\<not> is_str v \<and> e = AttributeError)
     \<or> (\<exists>cps. v = PyStr cps \<and> utf8 cps = None \<and> e = UnicodeEncodeError)"
  by (cases v) (auto split: option.splits)

lemma init_convert_args:
  "(\<exists>cs. convert_args
      (Some [c_char_p, SampleCallback, ConnectionClosedCallback, DeviceConnectedCallback,
             DeviceDisconnectedCallback, TrackingStoppedCallback])
      [PyCCharP bs, sampleCallback a, connectionClosedCallback a, deviceConnectedCallback a,
       deviceDisconnectedCallback a, trackingStoppedCallback a] = Inr cs)
   \<longleftrightarrow> callbacks_accepted a"
  by (auto simp: convert_args_def callbacks_accepted_def SampleCallback_def
      ConnectionClosedCallback_def DeviceConnectedCallback_def DeviceDisconnectedCallback_def
      TrackingStoppedCallback_def split: pyval.splits sum.splits if_splits)

lemma ELApi_init_returns_iff:
  "fst (ELApi_init N a s) = Inr PyNone
     \<longleftrightarrow> \<not> isl (encode_utf8 (clientName a)) \<and> callbacks_accepted a"
proof (cases "encode_utf8 (clientName a)")
  case (Inl e)
  then show ?thesis by (simp add: ELApi_init_raises_early)
next
  case (Inr b)
  then obtain cps bs where "clientName a = PyStr cps" "b = PyBytes bs"
    by (cases "clientName a") (auto split: option.splits)
  with Inr show ?thesis
    using init_convert_args [of bs a]
    by (auto simp: ELApi_init_def Let_def call_function_def set_argtypes_def set_restype_def
        split: sum.splits prod.splits)
qed

lemma ELApi_init_status_free:
  "ELApi_init (with_init_status g N) a s = ELApi_init N a s"
  by (auto simp: ELApi_init_def Let_def call_function_def with_init_status_def
      split: sum.splits prod.splits)

lemma from_param_raises:
  "from_param t v = Inl e \<Longrightarrow> e = ArgumentError"
  by (induction t v rule: from_param.induct) (auto split: if_splits)

lemma init_convert_args_raises:
  "convert_args
      (Some [c_char_p, SampleCallback, ConnectionClosedCallback, DeviceConnectedCallback,
             DeviceDisconnectedCallback, TrackingStoppedCallback])
      [PyCCharP bs, sampleCallback a, connectionClosedCallback a, deviceConnectedCallback a,
       deviceDisconnectedCallback a, trackingStoppedCallback a] = Inl e
   \<Longrightarrow> e = ArgumentError"
  by (auto simp: convert_args_def SampleCallback_def
      ConnectionClosedCallback_def DeviceConnectedCallback_def DeviceDisconnectedCallback_def
      TrackingStoppedCallback_def split: sum.splits dest: from_param_raises)

lemma ELApi_init_string:
  assumes "clientName a = PyStr cps"
  shows "fst (ELApi_init N a s) =
     (case utf8 cps of
        None \<Rightarrow> Inl UnicodeEncodeError
      | Some bs \<Rightarrow> if callbacks_accepted a then Inr PyNone else Inl ArgumentError)"
proof (cases "utf8 cps")
  case None
  with assms have "encode_utf8 (clientName a) = Inl UnicodeEncodeError" by simp
  then have "ELApi_init N a s = (Inl UnicodeEncodeError, s)"
    by (rule ELApi_init_raises_early)
  with None show ?thesis by simp
next
  case (Some bs)
  show ?thesis
  proof (cases "callbacks_accepted a")
    case True
    with assms Some have "fst (ELApi_init N a s) = Inr PyNone"
      by (simp add: ELApi_init_returns_iff)
    with Some True show ?thesis by simp
  next
    case False
    then obtain e where conv: "convert_args
      (Some [c_char_p, SampleCallback, ConnectionClosedCallback, DeviceConnectedCallback,
             DeviceDisconnectedCallback, TrackingStoppedCallback])
      [PyCCharP bs, sampleCallback a, connectionClosedCallback a, deviceConnectedCallback a,
       deviceDisconnectedCallback a, trackingStoppedCallback a] = Inl e"
      using init_convert_args [of bs a]
      by (cases "convert_args
      (Some [c_char_p, SampleCallback, ConnectionClosedCallback, DeviceConnectedCallback,
             DeviceDisconnectedCallback, TrackingStoppedCallback])
      [PyCCharP bs, sampleCallback a, connectionClosedCallback a, deviceConnectedCallback a,
       deviceDisconnectedCallback a, trackingStoppedCallback a]") auto
    then have "e = ArgumentError" by (rule init_convert_args_raises)
    with conv assms Some have "fst (ELApi_init N a s) = Inl ArgumentError"
      by (simp add: ELApi_init_def Let_def call_function_def set_argtypes_def set_restype_def)
    with Some False show ?thesis by simp
  qed
qed

subsection \<open>The result codes of the blocking calls\<close>

text \<open>
  C1 (as amended). For connect(), and for requestTracking and calibrate called with any
  integer mode index, and for every value the native entry point leaves in the return
  register: when that value, read as a signed 32-bit integer, is one of the documented
  codes (0 to 4 for connect, 0 to 5 for the other two), the call returns the member with
  that code; when it is any other integer, the call raises ValueError. The integer itself
  is never handed to the caller.
\<close>

theorem result_code_or_ValueError:
  "fst (connect N s) =
     (let c = sint (fst (N elConnect [] (nstate s)))
      in if 0 \<le> c \<and> c \<le> 4 then Inr (ReturnConnect_members ! nat c) else Inl ValueError)
   \<and> fst (requestTracking N (PyInt i) s) =
     (let c = sint (fst (N elRequestTracking [CInt (word_of_int i)] (nstate s)))
      in if 0 \<le> c \<and> c \<le> 5 then Inr (ReturnStart_members ! nat c) else Inl ValueError)
   \<and> fst (calibrate N (PyInt j) s) =
     (let c = sint (fst (N elCalibrate [CInt (word_of_int j)] (nstate s)))
      in if 0 \<le> c \<and> c \<le> 5 then Inr (ReturnCalibrate_members ! nat c) else Inl ValueError)"
  by (simp add: connect_eq requestTracking_eq calibrate_eq ReturnConnect_call_range
      ReturnStart_call_range ReturnCalibrate_call_range Let_def)

text \<open>
  C1 as stated fails: a library whose elConnect returns 5, whose elRequestTracking returns
  6, or whose elCalibrate returns -1, makes the call raise ValueError.
\<close>

theorem unknown_code_raises:
  "fst (connect (stub_native 5) fresh_lib) = Inl ValueError
   \<and> fst (requestTracking (stub_native 6) (PyInt 0) fresh_lib) = Inl ValueError
   \<and> fst (calibrate (stub_native (- 1)) (PyInt 0) fresh_lib) = Inl ValueError"
  by (simp add: connect_eq requestTracking_eq calibrate_eq ReturnConnect_call_range
      ReturnStart_call_range ReturnCalibrate_call_range stub_native_def)

text \<open>
  C4. connect() returns the result \<open>r\<close> exactly when the native elConnect returned the code
  of \<open>r\<close>; the codes of SUCCESS, NOT_INITED, ALREADY_CONNECTED, VERSION_MISMATCH and TIMEOUT
  are 0, 1, 2, 3 and 4; and these five are all the results there are.
\<close>

theorem connect_result:
  "(fst (connect N s) = Inr r \<longleftrightarrow> sint (fst (N elConnect [] (nstate s))) = ReturnConnect_value r)
   \<and> zip (map ReturnConnect_value ReturnConnect_members) ReturnConnect_members =
       [(0, ReturnConnect_SUCCESS), (1, ReturnConnect_NOT_INITED),
        (2, ReturnConnect_ALREADY_CONNECTED), (3, ReturnConnect_VERSION_MISMATCH),
        (4, ReturnConnect_TIMEOUT)]
   \<and> r \<in> set ReturnConnect_members"
  by (cases r) (simp_all add: connect_eq ReturnConnect_call_iff, simp_all add: ReturnConnect_members_def)

theorem connect_result_witness:
  "fst (connect (stub_native 3) fresh_lib) = Inr ReturnConnect_VERSION_MISMATCH"
  using connect_result [of "stub_native 3" fresh_lib ReturnConnect_VERSION_MISMATCH]
  by (simp add: stub_native_def)

text \<open>
  C5. For every integer mode index (passed to the native side as its low 32 bits),
  requestTracking returns the result \<open>r\<close> exactly when the native elRequestTracking returned
  the code of \<open>r\<close>; the codes of SUCCESS, NOT_CONNECTED, DEVICE_MISSING,
  INVALID_FRAMERATE_MODE, ALREADY_RUNNING_DIFFERENT_FRAMERATE and FAILURE are 0 to 5; and
  these six are all the results there are.
\<close>

theorem requestTracking_result:
  "(fst (requestTracking N (PyInt i) s) = Inr r
      \<longleftrightarrow> sint (fst (N elRequestTracking [CInt (word_of_int i)] (nstate s)))
            = ReturnStart_value r)
   \<and> zip (map ReturnStart_value ReturnStart_members) ReturnStart_members =
       [(0, ReturnStart_SUCCESS), (1, ReturnStart_NOT_CONNECTED),
        (2, ReturnStart_DEVICE_MISSING), (3, ReturnStart_INVALID_FRAMERATE_MODE),
        (4, ReturnStart_ALREADY_RUNNING_DIFFERENT_FRAMERATE), (5, ReturnStart_FAILURE)]
   \<and> r \<in> set ReturnStart_members"
  by (cases r) (simp_all add: requestTracking_eq ReturnStart_call_iff, simp_all add: ReturnStart_members_def)

theorem requestTracking_result_witness:
  "fst (requestTracking (stub_native 4) (PyInt (2 ^ 40 + 7)) fresh_lib)
     = Inr ReturnStart_ALREADY_RUNNING_DIFFERENT_FRAMERATE"
  using requestTracking_result [of "stub_native 4" "2 ^ 40 + 7" fresh_lib
      ReturnStart_ALREADY_RUNNING_DIFFERENT_FRAMERATE]
  by (simp add: stub_native_def)

text \<open>
  C6. For every integer mode index (passed to the native side as its low 32 bits),
  calibrate returns the result \<open>r\<close> exactly when the native elCalibrate returned the code of
  \<open>r\<close>; the codes of SUCCESS, NOT_CONNECTED, NOT_TRACKING, INVALID_CALIBRATION_MODE,
  ALREADY_CALIBRATING and FAILURE are 0 to 5; and these six are all the results there are.
\<close>

theorem calibrate_result:
  "(fst (calibrate N (PyInt i) s) = Inr r
      \<longleftrightarrow> sint (fst (N elCalibrate [CInt (word_of_int i)] (nstate s)))
            = ReturnCalibrate_value r)
   \<and> zip (map ReturnCalibrate_value ReturnCalibrate_members) ReturnCalibrate_members =
       [(0, ReturnCalibrate_SUCCESS), (1, ReturnCalibrate_NOT_CONNECTED),
        (2, ReturnCalibrate_NOT_TRACKING), (3, ReturnCalibrate_INVALID_CALIBRATION_MODE),
        (4, ReturnCalibrate_ALREADY_CALIBRATING), (5, ReturnCalibrate_FAILURE)]
   \<and> r \<in> set ReturnCalibrate_members"
  by (cases r) (simp_all add: calibrate_eq ReturnCalibrate_call_iff, simp_all add: ReturnCalibrate_members_def)

theorem calibrate_result_witness:
  "fst (calibrate (stub_native 2) (PyInt (- 1)) fresh_lib) = Inr ReturnCalibrate_NOT_TRACKING"
  using calibrate_result [of "stub_native 2" "- 1" fresh_lib ReturnCalibrate_NOT_TRACKING]
  by (simp add: stub_native_def)

subsection \<open>The calls without a result code\<close>

text \<open>
  C2, evaluated on a freshly loaded library whose elIsConnected returns 1. Before the call
  the prototype of elDisconnect is the default one (argtypes unset, restype c_int);
  isConnected() leaves it with argtypes [] and restype c_bool, leaves the prototype of
  elIsConnected at the default, and so returns the integer 1 and not a boolean. After a
  disconnect() (which sets the restype of elDisconnect to None) it changes that restype
  from None to c_bool.
\<close>

theorem isConnected_changes_elDisconnect:
  "protos fresh_lib elDisconnect = \<lparr>argtypes = None, restype = Some c_int\<rparr>
   \<and> protos (snd (isConnected (stub_native 1) fresh_lib)) elDisconnect
       = \<lparr>argtypes = Some [], restype = Some c_bool\<rparr>
   \<and> protos (snd (isConnected (stub_native 1) fresh_lib)) elIsConnected
       = \<lparr>argtypes = None, restype = Some c_int\<rparr>
   \<and> fst (isConnected (stub_native 1) fresh_lib) = Inr (PyInt 1)
   \<and> restype (protos (snd (disconnect (stub_native 1) fresh_lib)) elDisconnect) = None
   \<and> restype (protos (snd (isConnected (stub_native 1)
                 (snd (disconnect (stub_native 1) fresh_lib)))) elDisconnect) = Some c_bool"
  by (simp add: isConnected_def disconnect_def Let_def call_function_def convert_args_def
      set_argtypes_def set_restype_def fresh_lib_def default_prototype_def stub_native_def)

text \<open>
  C7. unrequestTracking() always returns None: it raises nothing and hands back no
  indicator, whatever the state and whatever calls came before. It makes exactly one
  native call, elUnrequestTracking with no arguments, and the native state afterwards is
  the one that call leaves.
\<close>

theorem unrequestTracking_fire_and_forget:
  "fst (unrequestTracking N s) = Inr PyNone
   \<and> calls (snd (unrequestTracking N s)) = calls s @ [(elUnrequestTracking, [])]
   \<and> nstate (snd (unrequestTracking N s)) = snd (N elUnrequestTracking [] (nstate s))"
  by (simp add: unrequestTracking_def Let_def call_function_noargs set_argtypes_def
      set_restype_def)

subsection \<open>Import and construction\<close>

text \<open>
  C3 (as amended). The library is looked for at the path made of the module's own
  directory and the file name ELCApi.dll (ELCApi32.dll when sys.maxsize is at most 2^32).
  If no file is there, or loading it fails, the import raises Exception, and client code
  that follows the import gets that exception whatever it would have done: no module, no
  session and no operation of the adapter exists.
\<close>

theorem load_failure_is_fatal:
  "\<not> isfile E (libnameGlobal E) \<or> try_load E = None \<Longrightarrow>
   libnameGlobal E =
     path_join E (base_dir E)
       ((if sys_maxsize E > 2 ^ 32 then ''ELCApi'' else ''ELCApi32'') @ ''.dll'')
   \<and> (\<exists>msg. module_load E = Inl (PyException msg) \<and> import_then E k = Inl (PyException msg))"
  by (auto simp: module_load_def import_then_def libnameGlobal_def libname_def)

theorem load_failure_is_fatal_witness:
  "\<not> isfile ((stub_env 0)\<lparr>isfile := (\<lambda>p. False)\<rparr>)
        (libnameGlobal ((stub_env 0)\<lparr>isfile := (\<lambda>p. False)\<rparr>))
   \<and> try_load ((stub_env 0)\<lparr>LoadLibraryExW := (\<lambda>p. 0)\<rparr>) = None
   \<and> (\<exists>msg. import_then ((stub_env 0)\<lparr>isfile := (\<lambda>p. False)\<rparr>)
               (construct (null_callbacks (PyStr []))) = Inl (PyException msg))
   \<and> (\<exists>msg. import_then ((stub_env 0)\<lparr>LoadLibraryExW := (\<lambda>p. 0)\<rparr>)
               (construct (null_callbacks (PyStr []))) = Inl (PyException msg))"
  using load_failure_is_fatal [of "(stub_env 0)\<lparr>isfile := (\<lambda>p. False)\<rparr>"
      "construct (null_callbacks (PyStr []))"]
    load_failure_is_fatal [of "(stub_env 0)\<lparr>LoadLibraryExW := (\<lambda>p. 0)\<rparr>"
      "construct (null_callbacks (PyStr []))"]
  by (auto simp: stub_env_def try_load_def)

text \<open>
  C3 as stated fails in its last part: with a library that is found and loads, the
  import succeeds and the constructor called with clientName None raises AttributeError,
  so a failed load is not the only condition reported by raising.
\<close>

theorem raising_after_successful_load:
  "\<not> isl (module_load (stub_env 0))
   \<and> import_then (stub_env 0) (construct (null_callbacks PyNone)) = Inl AttributeError"
  by (simp add: module_load_def import_then_def construct_def stub_env_def try_load_def
      null_callbacks_def ELApi_init_def)

text \<open>
  C9 (as amended). For every constructor invocation the status elInitApi returns is
  discarded: what the constructor returns or raises, and the state it leaves, are the same
  whatever that status is. Called with a string as clientName, the constructor raises
  UnicodeEncodeError when the string cannot be encoded, raises ArgumentError when a
  callback argument is not an instance of its prototype class, and otherwise returns
  normally; the native status has no part in which of the three happens.
\<close>

theorem init_status_discarded:
  "ELApi_init (with_init_status g N) a s = ELApi_init N a s
   \<and> (\<forall>cps. clientName a = PyStr cps \<longrightarrow>
        fst (ELApi_init N a s) =
          (case utf8 cps of
             None \<Rightarrow> Inl UnicodeEncodeError
           | Some bs \<Rightarrow> if callbacks_accepted a then Inr PyNone else Inl ArgumentError))"
  by (simp add: ELApi_init_status_free ELApi_init_string)

theorem init_status_discarded_witness:
  "ELApi_init (with_init_status (\<lambda>w. 1) (stub_native 0))
          (null_callbacks (PyStr [69, 76])) fresh_lib
     = ELApi_init (stub_native 0) (null_callbacks (PyStr [69, 76])) fresh_lib
   \<and> clientName (null_callbacks (PyStr [69, 76])) = PyStr [69, 76]
   \<and> fst (ELApi_init (stub_native 0) (null_callbacks (PyStr [69, 76])) fresh_lib) = Inr PyNone"
  using init_status_discarded [of "\<lambda>w. 1" "stub_native 0" "null_callbacks (PyStr [69, 76])"
      fresh_lib]
  by (simp add: null_callbacks_def null_callback_def callbacks_accepted_def utf8_char_def)

text \<open>
  C9 as stated fails: the library is found and loads, so nothing is raised during the
  load, and yet the constructor does not return normally. It raises UnicodeEncodeError
  for a client name that is a lone surrogate, and ArgumentError when the sample callback
  is an instance of another prototype class.
\<close>

theorem constructor_raises_after_load:
  "\<not> isl (module_load (stub_env 0))
   \<and> import_then (stub_env 0) (construct (null_callbacks (PyStr [0xD800])))
       = Inl UnicodeEncodeError
   \<and> import_then (stub_env 0)
       (construct ((null_callbacks (PyStr [69, 76]))
          \<lparr>sampleCallback := null_callback ConnectionClosedCallback\<rparr>))
       = Inl ArgumentError"
  by (simp add: module_load_def import_then_def construct_def stub_env_def try_load_def
      ELApi_init_string null_callbacks_def null_callback_def callbacks_accepted_def
      utf8_char_def SampleCallback_def ConnectionClosedCallback_def)

text \<open>
  C10. The first thing the constructor does is encode clientName. If clientName is not a
  string (None, for one) it raises AttributeError; if it is a string that UTF-8 cannot
  encode it raises UnicodeEncodeError; in both cases nothing has been changed and no
  native call has been made, and no error code is returned. With a string that can be
  encoded and all five callbacks NULL, the constructor returns normally and has passed
  the encoded name and five NULL pointers to elInitApi.
\<close>

theorem init_requires_string_clientName:
  "(\<not> is_str (clientName a) \<longrightarrow> ELApi_init N a s = (Inl AttributeError, s))
   \<and> (\<forall>cps. clientName a = PyStr cps \<and> utf8 cps = None
        \<longrightarrow> ELApi_init N a s = (Inl UnicodeEncodeError, s))
   \<and> (\<forall>cps bs. utf8 cps = Some bs
        \<longrightarrow> fst (ELApi_init N (null_callbacks (PyStr cps)) s) = Inr PyNone
          \<and> calls (snd (ELApi_init N (null_callbacks (PyStr cps)) s)) =
              calls s @ [(elInitApi, [CCharP (Some bs), CFuncPtr None, CFuncPtr None,
                                      CFuncPtr None, CFuncPtr None, CFuncPtr None])])"
proof (intro conjI allI impI)
  assume "\<not> is_str (clientName a)"
  then have "encode_utf8 (clientName a) = Inl AttributeError"
    by (cases "clientName a") simp_all
  then show "ELApi_init N a s = (Inl AttributeError, s)"
    by (rule ELApi_init_raises_early)
next
  fix cps assume "clientName a = PyStr cps \<and> utf8 cps = None"
  then have "encode_utf8 (clientName a) = Inl UnicodeEncodeError" by simp
  then show "ELApi_init N a s = (Inl UnicodeEncodeError, s)"
    by (rule ELApi_init_raises_early)
next
  fix cps bs assume "utf8 cps = Some bs"
  then show "fst (ELApi_init N (null_callbacks (PyStr cps)) s) = Inr PyNone"
    by (simp add: ELApi_init_returns_iff null_callbacks_def null_callback_def
        callbacks_accepted_def)
next
  fix cps bs assume "utf8 cps = Some bs"
  then show "calls (snd (ELApi_init N (null_callbacks (PyStr cps)) s)) =
      calls s @ [(elInitApi, [CCharP (Some bs), CFuncPtr None, CFuncPtr None,
                              CFuncPtr None, CFuncPtr None, CFuncPtr None])]"
    by (simp add: ELApi_init_def Let_def call_function_def convert_args_def set_argtypes_def
        set_restype_def null_callbacks_def null_callback_def SampleCallback_def
        ConnectionClosedCallback_def DeviceConnectedCallback_def
        DeviceDisconnectedCallback_def TrackingStoppedCallback_def split: prod.splits)
qed

theorem init_requires_string_clientName_witness:
  "ELApi_init (stub_native 0) (null_callbacks PyNone) fresh_lib = (Inl AttributeError, fresh_lib)
   \<and> ELApi_init (stub_native 0) (null_callbacks (PyStr [0xD800])) fresh_lib
       = (Inl UnicodeEncodeError, fresh_lib)
   \<and> fst (ELApi_init (stub_native 0) (null_callbacks (PyStr [0xE9])) fresh_lib) = Inr PyNone
   \<and> calls (snd (ELApi_init (stub_native 0) (null_callbacks (PyStr [0xE9])) fresh_lib)) =
       [(elInitApi, [CCharP (Some [0xC3, 0xA9]), CFuncPtr None, CFuncPtr None,
                     CFuncPtr None, CFuncPtr None, CFuncPtr None])]"
  using init_requires_string_clientName [of "null_callbacks PyNone" "stub_native 0" fresh_lib]
    init_requires_string_clientName [of "null_callbacks (PyStr [0xD800])" "stub_native 0"
      fresh_lib]
    init_requires_string_clientName [of "null_callbacks (PyStr [0xE9])" "stub_native 0"
      fresh_lib]
  by (simp add: null_callbacks_def utf8_char_def fresh_lib_def)

end
